theory Spec2Isabelle
  imports Main "HOL-Library.Word" "HOL-Library.Monad_Syntax"
begin

unbundle bit_operations_syntax

chapter \<open>The Aquacomputer Quadro hwmon driver\<close>

text \<open>
  A shallow embedding of \<^verbatim>\<open>aquacomputer-quadro.c\<close>: the report decoder
  \<^verbatim>\<open>quadro_raw_event\<close>, the staleness-gated reader \<^verbatim>\<open>quadro_read\<close>, the label
  reader \<^verbatim>\<open>quadro_read_string\<close> and the state creation in \<^verbatim>\<open>quadro_probe\<close>.

  Conventions of the embedding.
  \<^item> The C integer types are words: \<^verbatim>\<open>u8\<close>, \<^verbatim>\<open>u16\<close>, \<^verbatim>\<open>u32\<close> and \<^verbatim>\<open>s32\<close> by width,
    \<^verbatim>\<open>unsigned long\<close> as 64 bits (an LP64 kernel). \<^verbatim>\<open>int\<close> return codes and the
    \<^verbatim>\<open>long\<close> written through \<^verbatim>\<open>*val\<close> are HOL integers: every value converted to
    \<^verbatim>\<open>long\<close> fits, so the conversion is \<open>sint\<close> for \<^verbatim>\<open>s32\<close> and \<open>uint\<close> otherwise.
  \<^item> A function of the driver returns \<open>Some\<close> of its C return value and outputs. \<open>None\<close>
    stands for a read outside the extent of a buffer or array: the source has no
    check there, C leaves the behaviour undefined, and the model promises nothing.
  \<^item> An array of the state is a list; \<open>quadro_data_wf\<close> states the declared lengths.
  \<^item> \<^verbatim>\<open>jiffies\<close> and \<^verbatim>\<open>HZ\<close> are parameters.
\<close>

section \<open>Types and constants\<close>

type_synonym u8 = "8 word"
type_synonym u16 = "16 word"
type_synonym u32 = "32 word"
type_synonym s32 = "32 word"
type_synonym ulong = "64 word"
type_synonym pointer = nat

text \<open>
  Modelled from the spec: the error numbers, which the source takes from the kernel's
  headers. \<open>- ENODATA\<close> is the outcome Stale and \<open>- EOPNOTSUPP\<close> the only outcome of
  the source for a request it does not serve; the numbers are those of
  \<^verbatim>\<open>asm-generic/errno-base.h\<close> and \<^verbatim>\<open>asm-generic/errno.h\<close>.
\<close>

definition ENOMEM :: int where "ENOMEM = 12"
definition ENODATA :: int where "ENODATA = 61"
definition EOPNOTSUPP :: int where "EOPNOTSUPP = 95"

text \<open>
  Modelled from the spec: the sensor kinds, \<^verbatim>\<open>enum hwmon_sensor_types\<close> of
  \<^verbatim>\<open>linux/hwmon.h\<close>. Temperature, speed, power, voltage and current are
  \<open>hwmon_temp\<close>, \<open>hwmon_fan\<close>, \<open>hwmon_power\<close>, \<open>hwmon_in\<close> and \<open>hwmon_curr\<close>; the
  other constructors are the kinds of the kernel that the driver does not serve.
\<close>

datatype hwmon_sensor_types =
  hwmon_chip | hwmon_temp | hwmon_in | hwmon_curr | hwmon_power | hwmon_energy
  | hwmon_humidity | hwmon_fan | hwmon_pwm | hwmon_intrusion

definition QUADRO_STATUS_REPORT_ID :: u32 where "QUADRO_STATUS_REPORT_ID = 1"

definition QUADRO_STATUS_UPDATE_INTERVAL :: "ulong \<Rightarrow> ulong" where
  "QUADRO_STATUS_UPDATE_INTERVAL HZ = 2 * HZ"

subsection \<open>Register offsets\<close>

definition QUADRO_SERIAL_FIRST_PART :: nat where "QUADRO_SERIAL_FIRST_PART = 3"
definition QUADRO_SERIAL_SECOND_PART :: nat where "QUADRO_SERIAL_SECOND_PART = 5"
definition QUADRO_FIRMWARE_VERSION :: nat where "QUADRO_FIRMWARE_VERSION = 13"
definition QUADRO_POWER_CYCLES :: nat where "QUADRO_POWER_CYCLES = 24"

definition QUADRO_TEMP1 :: nat where "QUADRO_TEMP1 = 52"
definition QUADRO_TEMP2 :: nat where "QUADRO_TEMP2 = 54"
definition QUADRO_TEMP3 :: nat where "QUADRO_TEMP3 = 56"
definition QUADRO_TEMP4 :: nat where "QUADRO_TEMP4 = 58"

definition QUADRO_FLOW_SPEED :: nat where "QUADRO_FLOW_SPEED = 110"
definition QUADRO_FAN1_SPEED :: nat where "QUADRO_FAN1_SPEED = 120"
definition QUADRO_FAN2_SPEED :: nat where "QUADRO_FAN2_SPEED = 133"
definition QUADRO_FAN3_SPEED :: nat where "QUADRO_FAN3_SPEED = 146"
definition QUADRO_FAN4_SPEED :: nat where "QUADRO_FAN4_SPEED = 159"

definition QUADRO_FAN1_POWER :: nat where "QUADRO_FAN1_POWER = 118"
definition QUADRO_FAN2_POWER :: nat where "QUADRO_FAN2_POWER = 131"
definition QUADRO_FAN3_POWER :: nat where "QUADRO_FAN3_POWER = 144"
definition QUADRO_FAN4_POWER :: nat where "QUADRO_FAN4_POWER = 157"

definition QUADRO_VOLTAGE :: nat where "QUADRO_VOLTAGE = 108"
definition QUADRO_FAN1_VOLTAGE :: nat where "QUADRO_FAN1_VOLTAGE = 114"
definition QUADRO_FAN2_VOLTAGE :: nat where "QUADRO_FAN2_VOLTAGE = 127"
definition QUADRO_FAN3_VOLTAGE :: nat where "QUADRO_FAN3_VOLTAGE = 140"
definition QUADRO_FAN4_VOLTAGE :: nat where "QUADRO_FAN4_VOLTAGE = 153"

definition QUADRO_FAN1_CURRENT :: nat where "QUADRO_FAN1_CURRENT = 116"
definition QUADRO_FAN2_CURRENT :: nat where "QUADRO_FAN2_CURRENT = 129"
definition QUADRO_FAN3_CURRENT :: nat where "QUADRO_FAN3_CURRENT = 142"
definition QUADRO_FAN4_CURRENT :: nat where "QUADRO_FAN4_CURRENT = 155"

subsection \<open>Labels\<close>

definition label_temps :: "string list" where
  "label_temps = [''Temp1'', ''Temp2'', ''Temp3'', ''Temp4'']"

definition label_speeds :: "string list" where
  "label_speeds =
     [''Flow speed [l/h]'', ''Fan1 speed'', ''Fan2 speed'', ''Fan3 speed'', ''Fan4 speed'']"

definition label_power :: "string list" where
  "label_power = [''Fan1 power'', ''Fan2 power'', ''Fan3 power'', ''Fan4 power'']"

definition label_voltages :: "string list" where
  "label_voltages =
     [''VCC'', ''Fan1 voltage'', ''Fan2 voltage'', ''Fan3 voltage'', ''Fan4 voltage'']"

definition label_current :: "string list" where
  "label_current = [''Fan1 current'', ''Fan2 current'', ''Fan3 current'', ''Fan4 current'']"

subsection \<open>The device state\<close>

record quadro_data =
  hdev :: pointer
  hwmon_dev :: pointer
  debugfs :: pointer
  temp_input :: "s32 list"
  speed_input :: "u16 list"
  power_input :: "u32 list"
  voltage_input :: "u16 list"
  current_input :: "u16 list"
  serial_number :: "u32 list"
  firmware_version :: u16
  power_cycles :: u32
  updated :: ulong

text \<open>The array lengths that \<^verbatim>\<open>struct quadro_data\<close> declares.\<close>

definition quadro_data_wf :: "quadro_data \<Rightarrow> bool" where
  "quadro_data_wf priv \<longleftrightarrow>
     length (temp_input priv) = 4 \<and> length (speed_input priv) = 5 \<and>
     length (power_input priv) = 4 \<and> length (voltage_input priv) = 5 \<and>
     length (current_input priv) = 4 \<and> length (serial_number priv) = 2"

text \<open>The channels that \<^verbatim>\<open>quadro_info\<close> registers: each has an input and a label.\<close>

datatype hwmon_attr = INPUT | LABEL

definition quadro_info :: "(hwmon_sensor_types \<times> hwmon_attr list list) list" where
  "quadro_info =
     [(hwmon_temp, [[INPUT, LABEL], [INPUT, LABEL], [INPUT, LABEL], [INPUT, LABEL]]),
      (hwmon_fan, [[INPUT, LABEL], [INPUT, LABEL], [INPUT, LABEL], [INPUT, LABEL],
                   [INPUT, LABEL]]),
      (hwmon_power, [[INPUT, LABEL], [INPUT, LABEL], [INPUT, LABEL], [INPUT, LABEL]]),
      (hwmon_in, [[INPUT, LABEL], [INPUT, LABEL], [INPUT, LABEL], [INPUT, LABEL],
                  [INPUT, LABEL]]),
      (hwmon_curr, [[INPUT, LABEL], [INPUT, LABEL], [INPUT, LABEL], [INPUT, LABEL]])]"

definition channel_count :: "hwmon_sensor_types \<Rightarrow> nat" where
  "channel_count type = (case map_of quadro_info type of None \<Rightarrow> 0 | Some cs \<Rightarrow> length cs)"

definition valid_channel :: "hwmon_sensor_types \<Rightarrow> int \<Rightarrow> bool" where
  "valid_channel type channel \<longleftrightarrow> 0 \<le> channel \<and> nat channel < channel_count type"

section \<open>Reading bytes and arrays\<close>

text \<open>
  Modelled from the spec: the byte field reader, \<^verbatim>\<open>get_unaligned_be16(data + off)\<close> and
  \<^verbatim>\<open>get_unaligned_be32(data + off)\<close> of \<^verbatim>\<open>asm/unaligned.h\<close>. It reads two (four)
  bytes at the offset as a big-endian unsigned number, on the buffer \<open>data\<close> of
  \<^verbatim>\<open>size\<close> bytes (the list's length). It has no bounds check of its own: bytes outside
  the buffer give \<open>None\<close>.
\<close>

definition get_unaligned_be16 :: "u8 list \<Rightarrow> nat \<Rightarrow> u16 option" where
  "get_unaligned_be16 data off =
     (if off + 2 \<le> length data
      then Some (push_bit 8 (ucast (data ! off)) OR ucast (data ! (off + 1)))
      else None)"

definition get_unaligned_be32 :: "u8 list \<Rightarrow> nat \<Rightarrow> u32 option" where
  "get_unaligned_be32 data off =
     (if off + 4 \<le> length data
      then Some (push_bit 24 (ucast (data ! off)) OR push_bit 16 (ucast (data ! (off + 1)))
                 OR push_bit 8 (ucast (data ! (off + 2))) OR ucast (data ! (off + 3)))
      else None)"

text \<open>\<^verbatim>\<open>xs[channel]\<close> with an \<^verbatim>\<open>int\<close> index.\<close>

definition array_read :: "'a list \<Rightarrow> int \<Rightarrow> 'a option" where
  "array_read xs i = (if 0 \<le> i \<and> nat i < length xs then Some (xs ! nat i) else None)"

text \<open>
  The promotion of a \<^verbatim>\<open>u16\<close> to \<^verbatim>\<open>int\<close> before \<^verbatim>\<open>* 10\<close>, \<^verbatim>\<open>* 10000\<close> and \<^verbatim>\<open>/ 10\<close>.
  The value is never negative and the products stay below \<open>2 ^ 31\<close>
  (\<open>sint_times_10\<close>, \<open>sint_times_10000\<close>), so the 32-bit word operations are C's.
\<close>

definition int_of_u16 :: "u16 \<Rightarrow> 32 word" where
  "int_of_u16 x = ucast x"

text \<open>
  Modelled from the spec: the comparison of times, \<^verbatim>\<open>time_after(a, b)\<close> of
  \<^verbatim>\<open>linux/jiffies.h\<close>. Time \<open>a\<close> is after time \<open>b\<close> when the wrapping difference
  \<^verbatim>\<open>(long)((b) - (a))\<close> is negative.
\<close>

definition time_after :: "ulong \<Rightarrow> ulong \<Rightarrow> bool" where
  "time_after a b \<longleftrightarrow> sint (b - a) < 0"

section \<open>The driver\<close>

subsection \<open>\<^verbatim>\<open>quadro_read\<close>\<close>

text \<open>
  The result is the return value and what was written to \<^verbatim>\<open>*val\<close>, if anything.
  The parameter \<^verbatim>\<open>attr\<close> is not used by the source and is left out.
\<close>

definition quadro_read ::
  "ulong \<Rightarrow> ulong \<Rightarrow> quadro_data \<Rightarrow> hwmon_sensor_types \<Rightarrow> int \<Rightarrow> (int \<times> int option) option"
where
  "quadro_read HZ jiffies priv type channel =
     (if time_after jiffies (updated priv + QUADRO_STATUS_UPDATE_INTERVAL HZ)
      then Some (- ENODATA, None)
      else case type of
        hwmon_temp \<Rightarrow> do { v \<leftarrow> array_read (temp_input priv) channel; Some (0, Some (sint v)) }
      | hwmon_fan \<Rightarrow> do { v \<leftarrow> array_read (speed_input priv) channel; Some (0, Some (uint v)) }
      | hwmon_power \<Rightarrow> do { v \<leftarrow> array_read (power_input priv) channel; Some (0, Some (uint v)) }
      | hwmon_in \<Rightarrow> do { v \<leftarrow> array_read (voltage_input priv) channel; Some (0, Some (uint v)) }
      | hwmon_curr \<Rightarrow> do { v \<leftarrow> array_read (current_input priv) channel; Some (0, Some (uint v)) }
      | _ \<Rightarrow> Some (- EOPNOTSUPP, None))"

subsection \<open>\<^verbatim>\<open>quadro_read_string\<close>\<close>

definition quadro_read_string ::
  "hwmon_sensor_types \<Rightarrow> int \<Rightarrow> (int \<times> string option) option"
where
  "quadro_read_string type channel =
     (case type of
        hwmon_temp \<Rightarrow> do { s \<leftarrow> array_read label_temps channel; Some (0, Some s) }
      | hwmon_fan \<Rightarrow> do { s \<leftarrow> array_read label_speeds channel; Some (0, Some s) }
      | hwmon_power \<Rightarrow> do { s \<leftarrow> array_read label_power channel; Some (0, Some s) }
      | hwmon_in \<Rightarrow> do { s \<leftarrow> array_read label_voltages channel; Some (0, Some s) }
      | hwmon_curr \<Rightarrow> do { s \<leftarrow> array_read label_current channel; Some (0, Some s) }
      | _ \<Rightarrow> Some (- EOPNOTSUPP, None))"

subsection \<open>\<^verbatim>\<open>quadro_raw_event\<close>\<close>

text \<open>
  The arguments are \<^verbatim>\<open>jiffies\<close>, \<^verbatim>\<open>report->id\<close>, the buffer and the state; the result is
  the return value and the state. The source never looks at \<^verbatim>\<open>size\<close>.
\<close>

definition quadro_raw_event ::
  "ulong \<Rightarrow> u32 \<Rightarrow> u8 list \<Rightarrow> quadro_data \<Rightarrow> (int \<times> quadro_data) option"
where
  "quadro_raw_event jiffies report_id data priv =
     (if report_id \<noteq> QUADRO_STATUS_REPORT_ID then Some (0, priv)
      else do {
        s0 \<leftarrow> get_unaligned_be16 data QUADRO_SERIAL_FIRST_PART;
        let priv = priv\<lparr>serial_number := (serial_number priv)[0 := ucast s0]\<rparr>;
        s1 \<leftarrow> get_unaligned_be16 data QUADRO_SERIAL_SECOND_PART;
        let priv = priv\<lparr>serial_number := (serial_number priv)[1 := ucast s1]\<rparr>;

        fw \<leftarrow> get_unaligned_be16 data QUADRO_FIRMWARE_VERSION;
        let priv = priv\<lparr>firmware_version := fw\<rparr>;
        pc \<leftarrow> get_unaligned_be32 data QUADRO_POWER_CYCLES;
        let priv = priv\<lparr>power_cycles := pc\<rparr>;

        t1 \<leftarrow> get_unaligned_be16 data QUADRO_TEMP1;
        let priv = priv\<lparr>temp_input := (temp_input priv)[0 := int_of_u16 t1 * 10]\<rparr>;
        t2 \<leftarrow> get_unaligned_be16 data QUADRO_TEMP2;
        let priv = priv\<lparr>temp_input := (temp_input priv)[1 := int_of_u16 t2 * 10]\<rparr>;
        t3 \<leftarrow> get_unaligned_be16 data QUADRO_TEMP3;
        let priv = priv\<lparr>temp_input := (temp_input priv)[2 := int_of_u16 t3 * 10]\<rparr>;
        t4 \<leftarrow> get_unaligned_be16 data QUADRO_TEMP4;
        let priv = priv\<lparr>temp_input := (temp_input priv)[3 := int_of_u16 t4 * 10]\<rparr>;

        fl \<leftarrow> get_unaligned_be16 data QUADRO_FLOW_SPEED;
        let priv = priv\<lparr>speed_input := (speed_input priv)[0 := ucast (int_of_u16 fl div 10)]\<rparr>;
        f1 \<leftarrow> get_unaligned_be16 data QUADRO_FAN1_SPEED;
        let priv = priv\<lparr>speed_input := (speed_input priv)[1 := f1]\<rparr>;
        f2 \<leftarrow> get_unaligned_be16 data QUADRO_FAN2_SPEED;
        let priv = priv\<lparr>speed_input := (speed_input priv)[2 := f2]\<rparr>;
        f3 \<leftarrow> get_unaligned_be16 data QUADRO_FAN3_SPEED;
        let priv = priv\<lparr>speed_input := (speed_input priv)[3 := f3]\<rparr>;
        f4 \<leftarrow> get_unaligned_be16 data QUADRO_FAN4_SPEED;
        let priv = priv\<lparr>speed_input := (speed_input priv)[4 := f4]\<rparr>;

        p1 \<leftarrow> get_unaligned_be16 data QUADRO_FAN1_POWER;
        let priv = priv\<lparr>power_input := (power_input priv)[0 := int_of_u16 p1 * 10000]\<rparr>;
        p2 \<leftarrow> get_unaligned_be16 data QUADRO_FAN2_POWER;
        let priv = priv\<lparr>power_input := (power_input priv)[1 := int_of_u16 p2 * 10000]\<rparr>;
        p3 \<leftarrow> get_unaligned_be16 data QUADRO_FAN3_POWER;
        let priv = priv\<lparr>power_input := (power_input priv)[2 := int_of_u16 p3 * 10000]\<rparr>;
        p4 \<leftarrow> get_unaligned_be16 data QUADRO_FAN4_POWER;
        let priv = priv\<lparr>power_input := (power_input priv)[3 := int_of_u16 p4 * 10000]\<rparr>;

        v0 \<leftarrow> get_unaligned_be16 data QUADRO_VOLTAGE;
        let priv = priv\<lparr>voltage_input := (voltage_input priv)[0 := ucast (int_of_u16 v0 * 10)]\<rparr>;
        v1 \<leftarrow> get_unaligned_be16 data QUADRO_FAN1_VOLTAGE;
        let priv = priv\<lparr>voltage_input := (voltage_input priv)[1 := ucast (int_of_u16 v1 * 10)]\<rparr>;
        v2 \<leftarrow> get_unaligned_be16 data QUADRO_FAN2_VOLTAGE;
        let priv = priv\<lparr>voltage_input := (voltage_input priv)[2 := ucast (int_of_u16 v2 * 10)]\<rparr>;
        v3 \<leftarrow> get_unaligned_be16 data QUADRO_FAN3_VOLTAGE;
        let priv = priv\<lparr>voltage_input := (voltage_input priv)[3 := ucast (int_of_u16 v3 * 10)]\<rparr>;
        v4 \<leftarrow> get_unaligned_be16 data QUADRO_FAN4_VOLTAGE;
        let priv = priv\<lparr>voltage_input := (voltage_input priv)[4 := ucast (int_of_u16 v4 * 10)]\<rparr>;

        c1 \<leftarrow> get_unaligned_be16 data QUADRO_FAN1_CURRENT;
        let priv = priv\<lparr>current_input := (current_input priv)[0 := c1]\<rparr>;
        c2 \<leftarrow> get_unaligned_be16 data QUADRO_FAN2_CURRENT;
        let priv = priv\<lparr>current_input := (current_input priv)[1 := c2]\<rparr>;
        c3 \<leftarrow> get_unaligned_be16 data QUADRO_FAN3_CURRENT;
        let priv = priv\<lparr>current_input := (current_input priv)[2 := c3]\<rparr>;
        c4 \<leftarrow> get_unaligned_be16 data QUADRO_FAN4_CURRENT;
        let priv = priv\<lparr>current_input := (current_input priv)[3 := c4]\<rparr>;

        let priv = priv\<lparr>updated := jiffies\<rparr>;

        Some (0, priv)
      })"

subsection \<open>\<^verbatim>\<open>quadro_probe\<close>\<close>

text \<open>
  What the kernel answers during the probe: whether \<^verbatim>\<open>devm_kzalloc\<close> succeeds, the
  return values of \<^verbatim>\<open>hid_parse\<close>, \<^verbatim>\<open>hid_hw_start\<close> and \<^verbatim>\<open>hid_hw_open\<close>, the result
  of \<^verbatim>\<open>hwmon_device_register_with_info\<close> (\<open>Inl\<close> the error of an \<^verbatim>\<open>IS_ERR\<close> pointer),
  and the directory of \<^verbatim>\<open>debugfs_create_dir\<close> (\<open>None\<close> without \<^verbatim>\<open>CONFIG_DEBUG_FS\<close>).
\<close>

record probe_env =
  kzalloc_ok :: bool
  hid_parse_ret :: int
  hid_hw_start_ret :: int
  hid_hw_open_ret :: int
  hwmon_register :: "int + pointer"
  debugfs_dir :: "pointer option"

text \<open>The zero-filled \<^verbatim>\<open>struct quadro_data\<close> of \<^verbatim>\<open>devm_kzalloc\<close>.\<close>

definition kzalloc_quadro_data :: quadro_data where
  "kzalloc_quadro_data =
     \<lparr>hdev = 0, hwmon_dev = 0, debugfs = 0,
      temp_input = [0, 0, 0, 0], speed_input = [0, 0, 0, 0, 0],
      power_input = [0, 0, 0, 0], voltage_input = [0, 0, 0, 0, 0],
      current_input = [0, 0, 0, 0], serial_number = [0, 0],
      firmware_version = 0, power_cycles = 0, updated = 0\<rparr>"

definition quadro_debugfs_init :: "probe_env \<Rightarrow> quadro_data \<Rightarrow> quadro_data" where
  "quadro_debugfs_init env priv =
     (case debugfs_dir env of None \<Rightarrow> priv | Some d \<Rightarrow> priv\<lparr>debugfs := d\<rparr>)"

text \<open>
  The result is the return value and, when the probe succeeds, the state bound to the
  device (the device-managed allocation is released when it fails).
\<close>

definition quadro_probe ::
  "ulong \<Rightarrow> ulong \<Rightarrow> pointer \<Rightarrow> probe_env \<Rightarrow> int \<times> quadro_data option"
where
  "quadro_probe HZ jiffies hdev_ptr env =
     (if \<not> kzalloc_ok env then (- ENOMEM, None)
      else
        let priv = kzalloc_quadro_data\<lparr>hdev := hdev_ptr\<rparr>;
            priv = priv\<lparr>updated := jiffies - QUADRO_STATUS_UPDATE_INTERVAL HZ\<rparr>
        in if hid_parse_ret env \<noteq> 0 then (hid_parse_ret env, None)
           else if hid_hw_start_ret env \<noteq> 0 then (hid_hw_start_ret env, None)
           else if hid_hw_open_ret env \<noteq> 0 then (hid_hw_open_ret env, None)
           else case hwmon_register env of
                  Inl err \<Rightarrow> (err, None)
                | Inr dev \<Rightarrow> (0, Some (quadro_debugfs_init env (priv\<lparr>hwmon_dev := dev\<rparr>))))"

section \<open>Notions used to state the properties\<close>

text \<open>
  The big-endian value of the two (four) bytes at an offset: what \<open>get_unaligned_be16\<close>
  (\<open>get_unaligned_be32\<close>) returns when the bytes are inside the buffer
  (\<open>get_unaligned_be16_Some\<close>); \<open>uint_be16\<close> gives it from the two bytes.
\<close>

definition be16 :: "u8 list \<Rightarrow> nat \<Rightarrow> u16" where
  "be16 data off = push_bit 8 (ucast (data ! off)) OR ucast (data ! (off + 1))"

definition be32 :: "u8 list \<Rightarrow> nat \<Rightarrow> u32" where
  "be32 data off =
     push_bit 24 (ucast (data ! off)) OR push_bit 16 (ucast (data ! (off + 1)))
       OR push_bit 8 (ucast (data ! (off + 2))) OR ucast (data ! (off + 3))"

text \<open>
  The state that \<open>quadro_raw_event\<close> leaves for a report with the expected id, in closed
  form (\<open>quadro_raw_event_decoded\<close> proves that it is).
\<close>

definition decoded :: "ulong \<Rightarrow> u8 list \<Rightarrow> quadro_data \<Rightarrow> quadro_data" where
  "decoded jiffies data priv = priv
     \<lparr>temp_input := map (\<lambda>off. int_of_u16 (be16 data off) * 10) [52, 54, 56, 58],
      speed_input :=
        ucast (int_of_u16 (be16 data 110) div 10) # map (be16 data) [120, 133, 146, 159],
      power_input := map (\<lambda>off. int_of_u16 (be16 data off) * 10000) [118, 131, 144, 157],
      voltage_input :=
        map (\<lambda>off. ucast (int_of_u16 (be16 data off) * 10)) [108, 114, 127, 140, 153],
      current_input := map (be16 data) [116, 129, 142, 155],
      serial_number := map (\<lambda>off. ucast (be16 data off)) [3, 5],
      firmware_version := be16 data 13,
      power_cycles := be32 data 24,
      updated := jiffies\<rparr>"

text \<open>The value that the state holds for a channel, as the \<^verbatim>\<open>long\<close> handed to the reader.\<close>

definition stored_value :: "quadro_data \<Rightarrow> hwmon_sensor_types \<Rightarrow> int \<Rightarrow> int" where
  "stored_value priv type channel =
     (case type of
        hwmon_temp \<Rightarrow> sint (temp_input priv ! nat channel)
      | hwmon_fan \<Rightarrow> uint (speed_input priv ! nat channel)
      | hwmon_power \<Rightarrow> uint (power_input priv ! nat channel)
      | hwmon_in \<Rightarrow> uint (voltage_input priv ! nat channel)
      | hwmon_curr \<Rightarrow> uint (current_input priv ! nat channel)
      | _ \<Rightarrow> 0)"

section \<open>Facts about the embedding\<close>

lemmas QUADRO_offsets =
  QUADRO_SERIAL_FIRST_PART_def QUADRO_SERIAL_SECOND_PART_def QUADRO_FIRMWARE_VERSION_def
  QUADRO_POWER_CYCLES_def QUADRO_TEMP1_def QUADRO_TEMP2_def QUADRO_TEMP3_def QUADRO_TEMP4_def
  QUADRO_FLOW_SPEED_def QUADRO_FAN1_SPEED_def QUADRO_FAN2_SPEED_def QUADRO_FAN3_SPEED_def
  QUADRO_FAN4_SPEED_def QUADRO_FAN1_POWER_def QUADRO_FAN2_POWER_def QUADRO_FAN3_POWER_def
  QUADRO_FAN4_POWER_def QUADRO_VOLTAGE_def QUADRO_FAN1_VOLTAGE_def QUADRO_FAN2_VOLTAGE_def
  QUADRO_FAN3_VOLTAGE_def QUADRO_FAN4_VOLTAGE_def QUADRO_FAN1_CURRENT_def
  QUADRO_FAN2_CURRENT_def QUADRO_FAN3_CURRENT_def QUADRO_FAN4_CURRENT_def

subsection \<open>Word arithmetic of the scalings\<close>

lemma be16_bytes: "(push_bit 8 (ucast (a :: u8)) OR ucast (b :: u8) :: u16) = 256 * ucast a + ucast b"
proof -
  have "(push_bit 8 (ucast a) :: u16) AND ucast b = 0"
    by (rule bit_eqI) (auto simp: bit_simps dest: bit_imp_le_length)
  then have "(push_bit 8 (ucast a) + ucast b :: u16) = push_bit 8 (ucast a) OR ucast b"
    by (rule disjunctive_add_eq_or)
  then show ?thesis by (simp add: push_bit_eq_mult mult.commute)
qed

lemma uint_u8_less: "uint (a :: u8) < 256"
  using uint_bounded [of a] by simp

lemma uint_u16_less: "uint (w :: u16) < 65536"
  using uint_bounded [of w] by simp

lemma uint_ucast_u8_u16: "uint (ucast (a :: u8) :: u16) = uint a"
  by (simp add: uint_up_ucast is_up)

lemma uint_be16_bytes:
  "uint (push_bit 8 (ucast (a :: u8)) OR ucast (b :: u8) :: u16) = 256 * uint a + uint b"
proof -
  have "uint (256 * ucast a + ucast b :: u16) = (256 * uint a + uint b) mod 65536"
    by (simp add: uint_word_ariths uint_ucast_u8_u16 mod_simps)
  also have "\<dots> = 256 * uint a + uint b"
    using uint_u8_less [of a] uint_u8_less [of b] by simp
  finally show ?thesis by (simp add: be16_bytes)
qed

lemma signed_take_bit_31_eq_self:
  "0 \<le> k \<Longrightarrow> k < 2147483648 \<Longrightarrow> signed_take_bit 31 k = k" for k :: int
  by (rule signed_take_bit_int_eq_self) simp_all

lemma uint_int_of_u16: "uint (int_of_u16 w) = uint w"
  by (simp add: int_of_u16_def uint_up_ucast is_up)

lemma uint_times_10: "uint (int_of_u16 w * 10) = uint w * 10"
proof -
  have "uint (int_of_u16 w * 10) = (uint w * 10) mod 4294967296"
    by (simp add: uint_word_ariths uint_int_of_u16)
  then show ?thesis using uint_u16_less [of w] by simp
qed

lemma sint_times_10: "sint (int_of_u16 w * 10) = uint w * 10"
proof -
  have "sint (int_of_u16 w * 10) = signed_take_bit 31 (uint w * 10)"
    by (simp add: sint_uint uint_times_10)
  also have "\<dots> = uint w * 10"
    using uint_u16_less [of w] by (intro signed_take_bit_31_eq_self) simp_all
  finally show ?thesis .
qed

lemma uint_times_10000: "uint (int_of_u16 w * 10000) = uint w * 10000"
proof -
  have "uint (int_of_u16 w * 10000) = (uint w * 10000) mod 4294967296"
    by (simp add: uint_word_ariths uint_int_of_u16)
  then show ?thesis using uint_u16_less [of w] by simp
qed

lemma sint_times_10000: "sint (int_of_u16 w * 10000) = uint w * 10000"
proof -
  have "sint (int_of_u16 w * 10000) = signed_take_bit 31 (uint w * 10000)"
    by (simp add: sint_uint uint_times_10000)
  also have "\<dots> = uint w * 10000"
    using uint_u16_less [of w] by (intro signed_take_bit_31_eq_self) simp_all
  finally show ?thesis .
qed

lemma uint_div_10: "uint (ucast (int_of_u16 w div 10) :: u16) = uint w div 10"
proof -
  have "uint (int_of_u16 w div 10) = uint w div 10"
    by (simp add: uint_div uint_int_of_u16)
  then have "uint (ucast (int_of_u16 w div 10) :: u16) = (uint w div 10) mod 65536"
    by (simp add: unsigned_ucast_eq take_bit_eq_mod)
  moreover have "uint w div 10 < 65536" "0 \<le> uint w div 10"
    using uint_u16_less [of w] uint_ge_0 [of w] by (simp_all add: pos_imp_zdiv_nonneg_iff)
  ultimately show ?thesis by simp
qed

lemma uint_voltage: "uint (ucast (int_of_u16 w * 10) :: u16) = (uint w * 10) mod 65536"
  by (simp add: unsigned_ucast_eq take_bit_eq_mod uint_times_10)

subsection \<open>The decoder in closed form\<close>

lemma get_unaligned_be16_Some:
  "off + 2 \<le> length data \<Longrightarrow> get_unaligned_be16 data off = Some (be16 data off)"
  by (simp add: get_unaligned_be16_def be16_def)

lemma get_unaligned_be32_Some:
  "off + 4 \<le> length data \<Longrightarrow> get_unaligned_be32 data off = Some (be32 data off)"
  by (simp add: get_unaligned_be32_def be32_def)

lemma list_update2: "length xs = 2 \<Longrightarrow> xs[0 := a, Suc 0 := b] = [a, b]"
  by (cases xs; simp; cases "tl xs"; simp)

lemma list_update4: "length xs = 4 \<Longrightarrow> xs[0 := a, Suc 0 := b, 2 := c, 3 := d] = [a, b, c, d]"
  by (cases xs; simp; cases "tl xs"; simp; cases "tl (tl xs)"; simp; cases "tl (tl (tl xs))"; simp)

lemma list_update5:
  "length xs = 5 \<Longrightarrow> xs[0 := a, Suc 0 := b, 2 := c, 3 := d, 4 := e] = [a, b, c, d, e]"
  by (cases xs; simp; cases "tl xs"; simp; cases "tl (tl xs)"; simp; cases "tl (tl (tl xs))"; simp;
      cases "tl (tl (tl (tl xs)))"; simp)

lemma quadro_raw_event_decoded:
  assumes "161 \<le> length data" and "quadro_data_wf priv"
  shows "quadro_raw_event jiffies QUADRO_STATUS_REPORT_ID data priv
         = Some (0, decoded jiffies data priv)"
  using assms
  by (simp add: quadro_raw_event_def get_unaligned_be16_Some get_unaligned_be32_Some
      QUADRO_offsets quadro_data_wf_def decoded_def list_update2 list_update4 list_update5)

subsection \<open>The reader\<close>

lemma channel_count_simps:
  "channel_count hwmon_temp = 4" "channel_count hwmon_fan = 5" "channel_count hwmon_power = 4"
  "channel_count hwmon_in = 5" "channel_count hwmon_curr = 4"
  "channel_count hwmon_chip = 0" "channel_count hwmon_energy = 0"
  "channel_count hwmon_humidity = 0" "channel_count hwmon_pwm = 0"
  "channel_count hwmon_intrusion = 0"
  by (simp_all add: channel_count_def quadro_info_def)

lemma time_after_same: "\<not> time_after a a"
  by (simp add: time_after_def)

lemma time_after_next: "time_after (a + 1) a"
  by (simp add: time_after_def)

lemma quadro_read_stale:
  "time_after jiffies (updated priv + QUADRO_STATUS_UPDATE_INTERVAL HZ) \<Longrightarrow>
   quadro_read HZ jiffies priv type channel = Some (- ENODATA, None)"
  by (simp add: quadro_read_def)

lemma quadro_read_fresh_valid:
  assumes "\<not> time_after jiffies (updated priv + QUADRO_STATUS_UPDATE_INTERVAL HZ)"
    and "quadro_data_wf priv" and "valid_channel type channel"
  shows "quadro_read HZ jiffies priv type channel = Some (0, Some (stored_value priv type channel))"
  using assms
  by (cases type)
     (simp_all add: quadro_read_def quadro_data_wf_def valid_channel_def channel_count_simps
        array_read_def stored_value_def)

lemma quadro_read_fresh_unsupported:
  assumes "\<not> time_after jiffies (updated priv + QUADRO_STATUS_UPDATE_INTERVAL HZ)"
    and "channel_count type = 0"
  shows "quadro_read HZ jiffies priv type channel = Some (- EOPNOTSUPP, None)"
  using assms
  by (cases type) (simp_all add: quadro_read_def channel_count_simps)

lemma decoded_wf: "quadro_data_wf priv \<Longrightarrow> quadro_data_wf (decoded jiffies data priv)"
  by (simp add: quadro_data_wf_def decoded_def)

lemma decoded_updated: "updated (decoded jiffies data priv) = jiffies"
  by (simp add: decoded_def)

lemma decoded_twice:
  "decoded t2 data (decoded t1 data priv) = (decoded t1 data priv)\<lparr>updated := t2\<rparr>"
  by (simp add: decoded_def)

lemma quadro_raw_event_short:
  "length data < 161 \<Longrightarrow> quadro_raw_event jiffies QUADRO_STATUS_REPORT_ID data priv = None"
  by (simp add: quadro_raw_event_def get_unaligned_be16_def get_unaligned_be32_def QUADRO_offsets)

subsection \<open>Further facts\<close>

lemma uint_be16: "uint (be16 data off) = 256 * uint (data ! off) + uint (data ! (off + 1))"
  by (simp add: be16_def uint_be16_bytes)

lemma array_read_in_set: "array_read xs i = Some x \<Longrightarrow> x \<in> set xs"
  by (auto simp: array_read_def split: if_splits)

lemma array_read_Some: "0 \<le> i \<Longrightarrow> nat i < length xs \<Longrightarrow> array_read xs i = Some (xs ! nat i)"
  by (simp add: array_read_def)



lemma labels_length:
  "length label_temps = 4" "length label_speeds = 5" "length label_power = 4"
  "length label_voltages = 5" "length label_current = 4"
  by (simp_all add: label_temps_def label_speeds_def label_power_def label_voltages_def
      label_current_def)

lemma quadro_raw_event_returns_0:
  "quadro_raw_event jiffies report_id data priv = Some (r, s) \<Longrightarrow> r = 0"
  by (auto simp: quadro_raw_event_def Let_def split: if_splits bind_splits)

lemma kzalloc_wf: "quadro_data_wf kzalloc_quadro_data"
  by (simp add: quadro_data_wf_def kzalloc_quadro_data_def)

lemma voltage_exact: "uint w \<le> 6553 \<Longrightarrow> uint (ucast (int_of_u16 w * 10) :: u16) = uint w * 10"
  by (simp add: uint_voltage)

text \<open>The values that a decode stores, as integers, from the big-endian fields.\<close>

lemma decoded_values:
  "map sint (temp_input (decoded jiffies data priv))
   = map (\<lambda>off. uint (be16 data off) * 10) [52, 54, 56, 58]"
  "map uint (speed_input (decoded jiffies data priv))
   = uint (be16 data 110) div 10 # map (\<lambda>off. uint (be16 data off)) [120, 133, 146, 159]"
  "map uint (power_input (decoded jiffies data priv))
   = map (\<lambda>off. uint (be16 data off) * 10000) [118, 131, 144, 157]"
  "map uint (voltage_input (decoded jiffies data priv))
   = map (\<lambda>off. uint (be16 data off) * 10 mod 65536) [108, 114, 127, 140, 153]"
  "map uint (current_input (decoded jiffies data priv))
   = map (\<lambda>off. uint (be16 data off)) [116, 129, 142, 155]"
  by (simp_all add: decoded_def sint_times_10 uint_div_10 uint_times_10000 uint_voltage)

text \<open>The ranges of the stored temperatures and powers.\<close>

lemma temp_range:
  "0 \<le> sint (int_of_u16 w * 10) \<and> 10 dvd sint (int_of_u16 w * 10)
   \<and> sint (int_of_u16 w * 10) \<le> 655350"
  using uint_u16_less [of w] by (simp add: sint_times_10)

lemma power_range:
  "10000 dvd uint (int_of_u16 w * 10000) \<and> uint (int_of_u16 w * 10000) \<le> 655350000"
  using uint_u16_less [of w] by (simp add: uint_times_10000)

lemma decoded_ranges:
  "t \<in> set (temp_input (decoded jiffies data priv)) \<Longrightarrow>
     0 \<le> sint t \<and> 10 dvd sint t \<and> sint t \<le> 655350"
  "p \<in> set (power_input (decoded jiffies data priv)) \<Longrightarrow>
     10000 dvd uint p \<and> uint p \<le> 655350000"
  using temp_range power_range by (auto simp: decoded_def)

text \<open>
  With fresh data and an index outside the range of a registered kind, the read leaves the
  array: the source has no check of the index.
\<close>

lemma quadro_read_fresh_out_of_range:
  assumes "\<not> time_after jiffies (updated priv + QUADRO_STATUS_UPDATE_INTERVAL HZ)"
    and "quadro_data_wf priv" and "channel_count type \<noteq> 0" and "\<not> valid_channel type channel"
  shows "quadro_read HZ jiffies priv type channel = None"
  using assms
  by (cases type)
     (auto simp: quadro_read_def quadro_data_wf_def valid_channel_def channel_count_simps
        array_read_def)

lemma quadro_read_string_out_of_range:
  assumes "channel_count type \<noteq> 0" and "\<not> valid_channel type channel"
  shows "quadro_read_string type channel = None"
  using assms
  by (cases type)
     (auto simp: quadro_read_string_def valid_channel_def channel_count_simps array_read_def
        labels_length)

text \<open>The state of a successful probe, read in the jiffy of the probe and in the next.\<close>

lemma quadro_probe_then_read:
  assumes "quadro_probe HZ jiffies h env = (0, Some priv)" and "valid_channel type channel"
  shows "quadro_read HZ jiffies priv type channel = Some (0, Some 0)"
    and "quadro_read HZ (jiffies + 1) priv type channel = Some (- ENODATA, None)"
proof -
  from assms(1) obtain dev where
    priv: "priv = quadro_debugfs_init env (kzalloc_quadro_data
             \<lparr>hdev := h, updated := jiffies - QUADRO_STATUS_UPDATE_INTERVAL HZ, hwmon_dev := dev\<rparr>)"
    by (auto simp: quadro_probe_def Let_def split: if_splits sum.splits)
  have upd: "updated priv = jiffies - QUADRO_STATUS_UPDATE_INTERVAL HZ"
    by (simp add: priv quadro_debugfs_init_def split: option.splits)
  have wf: "quadro_data_wf priv"
    by (simp add: priv quadro_debugfs_init_def quadro_data_wf_def kzalloc_quadro_data_def
        split: option.splits)
  have zero: "stored_value priv type channel = 0"
    using assms(2)
    by (cases type)
       (auto simp: priv quadro_debugfs_init_def kzalloc_quadro_data_def stored_value_def
          valid_channel_def channel_count_simps nth_Cons' split: option.splits)
  have "quadro_read HZ jiffies priv type channel = Some (0, Some (stored_value priv type channel))"
    using wf assms(2) by (intro quadro_read_fresh_valid) (simp_all add: upd time_after_same)
  with zero show "quadro_read HZ jiffies priv type channel = Some (0, Some 0)" by simp
  show "quadro_read HZ (jiffies + 1) priv type channel = Some (- ENODATA, None)"
    by (rule quadro_read_stale) (simp add: upd time_after_next)
qed

section \<open>The claims\<close>

text \<open>
  Claim C1: the decoded values follow the offset table, each voltage being the u16 of
  its offset times 10.

  The voltages are stored in \<^verbatim>\<open>u16\<close> fields, so the product is cut to 16 bits. A
  report whose supply-voltage field at offset 108 holds 6554 (the bytes 25 and 154)
  leaves the stored supply voltage 4, where ten times the field is 65540. Every other
  field of this report is zero and decodes to zero. For any report, \<open>decoded_values\<close>
  gives what is stored: every field is as the table says, the voltages modulo 65536.
\<close>

theorem supply_voltage_wraps:
  "quadro_raw_event 0 QUADRO_STATUS_REPORT_ID
     ((replicate 161 0)[108 := 25, 109 := 154]) kzalloc_quadro_data
   = Some (0, kzalloc_quadro_data\<lparr>voltage_input := [4, 0, 0, 0, 0]\<rparr>)
   \<and> uint (be16 ((replicate 161 0)[108 := 25, 109 := 154]) 108) * 10 = 65540"
proof -
  have "quadro_raw_event 0 QUADRO_STATUS_REPORT_ID
          ((replicate 161 0)[108 := 25, 109 := 154]) kzalloc_quadro_data
        = Some (0, decoded 0 ((replicate 161 0)[108 := 25, 109 := 154]) kzalloc_quadro_data)"
    by (rule quadro_raw_event_decoded) (simp_all add: kzalloc_wf)
  then show ?thesis
    by (simp add: decoded_def be16_def be32_def int_of_u16_def kzalloc_quadro_data_def)
qed



text \<open>
  Claim C3, as amended: the read checks staleness before anything else. With stale data
  it returns \<open>-ENODATA\<close> for every kind and index, registered or not. With fresh data,
  a kind that has no channels gets \<open>-EOPNOTSUPP\<close>, and an index outside the range of a
  registered kind gets no error at all: the source does not compare the index with
  anything and reads the array of values outside its extent.

  The claim as stated, that an unregistered pair yields the not-found outcome whether
  the data is fresh or stale, fails twice at temperature 4, which is outside the four
  temperatures: the read of a stale state returns \<open>-ENODATA\<close>, and the read of a fresh
  state is the unchecked \<^verbatim>\<open>temp_input[4]\<close>, with no error to return.
\<close>

theorem read_checks_staleness_first:
  "(time_after jiffies (updated priv + QUADRO_STATUS_UPDATE_INTERVAL HZ) \<longrightarrow>
      quadro_read HZ jiffies priv type channel = Some (- ENODATA, None)) \<and>
   (\<not> time_after jiffies (updated priv + QUADRO_STATUS_UPDATE_INTERVAL HZ) \<and>
    channel_count type = 0 \<longrightarrow>
      quadro_read HZ jiffies priv type channel = Some (- EOPNOTSUPP, None)) \<and>
   (\<not> time_after jiffies (updated priv + QUADRO_STATUS_UPDATE_INTERVAL HZ) \<and>
    quadro_data_wf priv \<and> channel_count type \<noteq> 0 \<and> \<not> valid_channel type channel \<longrightarrow>
      quadro_read HZ jiffies priv type channel = None)"
  by (simp add: quadro_read_stale quadro_read_fresh_unsupported quadro_read_fresh_out_of_range)

theorem read_checks_staleness_first_witness:
  "time_after 501 (updated kzalloc_quadro_data + QUADRO_STATUS_UPDATE_INTERVAL 250) \<and>
   quadro_read 250 501 kzalloc_quadro_data hwmon_in 7 = Some (- ENODATA, None) \<and>
   \<not> time_after 0 (updated kzalloc_quadro_data + QUADRO_STATUS_UPDATE_INTERVAL 250) \<and>
   channel_count hwmon_pwm = 0 \<and>
   quadro_read 250 0 kzalloc_quadro_data hwmon_pwm 0 = Some (- EOPNOTSUPP, None) \<and>
   quadro_data_wf kzalloc_quadro_data \<and> channel_count hwmon_in \<noteq> 0 \<and>
   \<not> valid_channel hwmon_in 7 \<and>
   quadro_read 250 0 kzalloc_quadro_data hwmon_in 7 = None"
  using read_checks_staleness_first [of 501 kzalloc_quadro_data 250 hwmon_in 7]
    read_checks_staleness_first [of 0 kzalloc_quadro_data 250 hwmon_pwm 0]
    read_checks_staleness_first [of 0 kzalloc_quadro_data 250 hwmon_in 7]
  by (simp add: time_after_def kzalloc_quadro_data_def QUADRO_STATUS_UPDATE_INTERVAL_def
      channel_count_simps valid_channel_def quadro_data_wf_def)

theorem read_unregistered_counterexample:
  "\<not> valid_channel hwmon_temp 4 \<and>
   time_after 501 (updated kzalloc_quadro_data + QUADRO_STATUS_UPDATE_INTERVAL 250) \<and>
   quadro_read 250 501 kzalloc_quadro_data hwmon_temp 4 = Some (- ENODATA, None) \<and>
   - ENODATA \<noteq> - EOPNOTSUPP \<and>
   \<not> time_after 500 (updated kzalloc_quadro_data + QUADRO_STATUS_UPDATE_INTERVAL 250) \<and>
   quadro_read 250 500 kzalloc_quadro_data hwmon_temp 4 = None"
  by (simp add: valid_channel_def channel_count_simps quadro_read_def time_after_def
      array_read_def kzalloc_quadro_data_def QUADRO_STATUS_UPDATE_INTERVAL_def ENODATA_def
      EOPNOTSUPP_def)

text \<open>
  Claim C4: a report whose id is not the expected one changes nothing. The decoder
  returns 0 and the state it was given, whatever the buffer holds.
\<close>

theorem tag_mismatch_is_noop:
  "report_id \<noteq> QUADRO_STATUS_REPORT_ID \<Longrightarrow>
   quadro_raw_event jiffies report_id data priv = Some (0, priv)"
  by (simp add: quadro_raw_event_def)

theorem tag_mismatch_is_noop_witness:
  "(2 :: u32) \<noteq> QUADRO_STATUS_REPORT_ID \<and>
   quadro_raw_event 1000 2 [1, 2, 3] kzalloc_quadro_data = Some (0, kzalloc_quadro_data)"
proof -
  have h: "(2 :: u32) \<noteq> QUADRO_STATUS_REPORT_ID"
    by (simp add: QUADRO_STATUS_REPORT_ID_def)
  from h tag_mismatch_is_noop [OF h, of 1000 "[1, 2, 3]" kzalloc_quadro_data]
  show ?thesis by simp
qed

text \<open>
  Claim C5, as amended: the decoder never looks at the length of the buffer and has no
  error outcome; a return value of the decoder is 0, whatever the arguments. The last
  field ends at byte 161 (offset 159, two bytes), not 163. For every report with the
  expected id and at least 161 bytes, every read is inside the buffer, the decoder
  returns 0 and the state holds the decoded fields and the new timestamp. For every
  report with the expected id and fewer than 161 bytes, the decoder signals nothing
  and reads past the end of the buffer.

  The claim as stated, that a report of fewer than 163 bytes is answered with an error,
  is not read past its end and leaves the state untouched, fails at both ends. For a
  report of 160 bytes the source reads the fan 4 speed at bytes 159 and 160, the
  second of which is past the end, and has no error to return. A report of 161 bytes
  is decoded inside the buffer: the temperature and the timestamp are replaced, and 0
  is returned.
\<close>

theorem decode_has_no_length_check:
  "(161 \<le> length data \<and> quadro_data_wf priv \<longrightarrow>
      quadro_raw_event jiffies QUADRO_STATUS_REPORT_ID data priv
        = Some (0, decoded jiffies data priv) \<and>
      updated (decoded jiffies data priv) = jiffies) \<and>
   (length data < 161 \<longrightarrow>
      quadro_raw_event jiffies QUADRO_STATUS_REPORT_ID data priv = None) \<and>
   (\<forall>rid d p r s. quadro_raw_event jiffies rid d p = Some (r, s) \<longrightarrow> r = 0)"
proof (intro conjI impI allI)
  assume "161 \<le> length data \<and> quadro_data_wf priv"
  then show "quadro_raw_event jiffies QUADRO_STATUS_REPORT_ID data priv
             = Some (0, decoded jiffies data priv)"
    by (simp add: quadro_raw_event_decoded)
next
  show "updated (decoded jiffies data priv) = jiffies"
    by (rule decoded_updated)
next
  assume "length data < 161"
  then show "quadro_raw_event jiffies QUADRO_STATUS_REPORT_ID data priv = None"
    by (rule quadro_raw_event_short)
next
  fix rid d p r s
  assume "quadro_raw_event jiffies rid d p = Some (r, s)"
  then show "r = 0" by (rule quadro_raw_event_returns_0)
qed

theorem decode_has_no_length_check_witness:
  "161 \<le> length (replicate 161 (0 :: u8)) \<and> quadro_data_wf kzalloc_quadro_data \<and>
   quadro_raw_event 1000 QUADRO_STATUS_REPORT_ID (replicate 161 0) kzalloc_quadro_data
     = Some (0, kzalloc_quadro_data\<lparr>updated := 1000\<rparr>) \<and>
   length (replicate 160 (0 :: u8)) < 161 \<and>
   quadro_raw_event 1000 QUADRO_STATUS_REPORT_ID (replicate 160 0) kzalloc_quadro_data = None"
proof -
  have h: "161 \<le> length (replicate 161 (0 :: u8))" "quadro_data_wf kzalloc_quadro_data"
    "length (replicate 160 (0 :: u8)) < 161"
    by (simp_all add: kzalloc_wf)
  have "decoded 1000 (replicate 161 0) kzalloc_quadro_data
        = kzalloc_quadro_data\<lparr>updated := 1000\<rparr>"
    by (simp add: decoded_def be16_def be32_def int_of_u16_def kzalloc_quadro_data_def)
  with h
    decode_has_no_length_check
      [where data = "replicate 161 0" and priv = kzalloc_quadro_data and jiffies = 1000]
    decode_has_no_length_check
      [where data = "replicate 160 0" and priv = kzalloc_quadro_data and jiffies = 1000]
  show ?thesis by simp
qed

theorem short_report_counterexample:
  "length (replicate 160 (0 :: u8)) < 161 \<and>
   quadro_raw_event 1000 QUADRO_STATUS_REPORT_ID (replicate 160 0) kzalloc_quadro_data = None \<and>
   length ((replicate 161 0)[53 := 250 :: u8]) < 163 \<and>
   quadro_raw_event 1000 QUADRO_STATUS_REPORT_ID ((replicate 161 0)[53 := 250])
     kzalloc_quadro_data
   = Some (0, kzalloc_quadro_data\<lparr>temp_input := [2500, 0, 0, 0], updated := 1000\<rparr>) \<and>
   updated kzalloc_quadro_data = 0"
proof -
  have short: "quadro_raw_event 1000 QUADRO_STATUS_REPORT_ID (replicate 160 0)
                 kzalloc_quadro_data = None"
    by (rule quadro_raw_event_short) simp
  have "quadro_raw_event 1000 QUADRO_STATUS_REPORT_ID ((replicate 161 0)[53 := 250])
          kzalloc_quadro_data
        = Some (0, decoded 1000 ((replicate 161 0)[53 := 250]) kzalloc_quadro_data)"
    by (rule quadro_raw_event_decoded) (simp_all add: kzalloc_wf)
  with short show ?thesis
    by (simp add: decoded_def be16_def be32_def int_of_u16_def kzalloc_quadro_data_def)
qed

text \<open>
  Claim C6: a state that no report has reached reads as stale at the time of the probe.

  The probe sets the timestamp to the jiffies minus the update interval, which is the
  last instant that still counts as fresh. A successful probe at jiffies 1000 with
  \<open>HZ\<close> 250 leaves the timestamp 500, and a read of temperature 0 at jiffies 1000
  returns 0 and the value 0. (\<open>quadro_probe_then_read\<close>: so it is for every \<open>HZ\<close>,
  time and registered channel, and one jiffy later the read returns \<open>-ENODATA\<close>.)
\<close>

theorem read_at_probe_time_returns_zero:
  "quadro_probe 250 1000 7
     \<lparr>kzalloc_ok = True, hid_parse_ret = 0, hid_hw_start_ret = 0, hid_hw_open_ret = 0,
      hwmon_register = Inr 9, debugfs_dir = None\<rparr>
   = (0, Some (kzalloc_quadro_data\<lparr>hdev := 7, hwmon_dev := 9, updated := 500\<rparr>)) \<and>
   quadro_read 250 1000 (kzalloc_quadro_data\<lparr>hdev := 7, hwmon_dev := 9, updated := 500\<rparr>)
     hwmon_temp 0 = Some (0, Some 0)"
  by (simp add: quadro_probe_def quadro_debugfs_init_def QUADRO_STATUS_UPDATE_INTERVAL_def
      quadro_read_def time_after_def array_read_def kzalloc_quadro_data_def)




text \<open>
  Claim C8: decoding the same report at two increasing times. The second decode leaves
  the state of the first with the timestamp replaced: every value of the snapshot and
  of the identity is the same, and the two timestamps differ.
\<close>

theorem reapply_same_report:
  assumes "161 \<le> length data" and "quadro_data_wf priv" and "t1 < t2"
  shows "\<exists>s1 s2. quadro_raw_event t1 QUADRO_STATUS_REPORT_ID data priv = Some (0, s1) \<and>
           quadro_raw_event t2 QUADRO_STATUS_REPORT_ID data s1 = Some (0, s2) \<and>
           s2 = s1\<lparr>updated := t2\<rparr> \<and> updated s1 = t1 \<and> updated s2 = t2 \<and>
           updated s1 \<noteq> updated s2"
proof -
  let ?s1 = "decoded t1 data priv"
  let ?s2 = "decoded t2 data ?s1"
  have 1: "quadro_raw_event t1 QUADRO_STATUS_REPORT_ID data priv = Some (0, ?s1)"
    using assms(1,2) by (rule quadro_raw_event_decoded)
  have 2: "quadro_raw_event t2 QUADRO_STATUS_REPORT_ID data ?s1 = Some (0, ?s2)"
    using assms(1) decoded_wf [OF assms(2)] by (rule quadro_raw_event_decoded)
  have 3: "?s2 = ?s1\<lparr>updated := t2\<rparr>" by (rule decoded_twice)
  have 4: "updated ?s1 = t1" "updated ?s2 = t2" by (simp_all add: decoded_updated)
  with assms(3) have 5: "updated ?s1 \<noteq> updated ?s2" by simp
  from 1 2 3 4 5 show ?thesis by blast
qed

theorem reapply_same_report_witness:
  "161 \<le> length ((replicate 161 0)[53 := 250 :: u8]) \<and> quadro_data_wf kzalloc_quadro_data \<and>
   (1000 :: ulong) < 1250 \<and>
   (\<exists>s1 s2. quadro_raw_event 1000 QUADRO_STATUS_REPORT_ID ((replicate 161 0)[53 := 250])
               kzalloc_quadro_data = Some (0, s1) \<and>
      quadro_raw_event 1250 QUADRO_STATUS_REPORT_ID ((replicate 161 0)[53 := 250]) s1
        = Some (0, s2) \<and>
      s2 = s1\<lparr>updated := 1250\<rparr> \<and> updated s1 = 1000 \<and> updated s2 = 1250 \<and>
      updated s1 \<noteq> updated s2)"
proof -
  have h: "161 \<le> length ((replicate 161 0)[53 := 250 :: u8])"
    "quadro_data_wf kzalloc_quadro_data" "(1000 :: ulong) < 1250"
    by (simp_all add: kzalloc_wf)
  from h reapply_same_report [OF h] show ?thesis by simp
qed

text \<open>
  Claim C9: the flow speed is the field at offset 110 divided by 10, rounded down. After
  the decode of a report with the expected id, speed 0 holds the quotient of the
  big-endian value of bytes 110 and 111 by 10, and a read hands out that number. In
  the witness the field is 125 and the stored speed is 12.
\<close>

theorem flow_speed_truncates:
  assumes "161 \<le> length data" and "quadro_data_wf priv"
  shows "\<exists>priv'. quadro_raw_event jiffies QUADRO_STATUS_REPORT_ID data priv = Some (0, priv') \<and>
           uint (speed_input priv' ! 0) = (256 * uint (data ! 110) + uint (data ! 111)) div 10 \<and>
           quadro_read HZ (jiffies + QUADRO_STATUS_UPDATE_INTERVAL HZ) priv' hwmon_fan 0
             = Some (0, Some ((256 * uint (data ! 110) + uint (data ! 111)) div 10))"
proof -
  let ?p = "decoded jiffies data priv"
  have ev: "quadro_raw_event jiffies QUADRO_STATUS_REPORT_ID data priv = Some (0, ?p)"
    using assms by (rule quadro_raw_event_decoded)
  have v: "uint (speed_input ?p ! 0) = (256 * uint (data ! 110) + uint (data ! 111)) div 10"
    by (simp add: decoded_def uint_div_10 uint_be16)
  have "quadro_read HZ (jiffies + QUADRO_STATUS_UPDATE_INTERVAL HZ) ?p hwmon_fan 0
        = Some (0, Some (stored_value ?p hwmon_fan 0))"
    using assms(2)
    by (intro quadro_read_fresh_valid)
       (simp_all add: decoded_updated time_after_same decoded_wf valid_channel_def
          channel_count_simps)
  with v have rd: "quadro_read HZ (jiffies + QUADRO_STATUS_UPDATE_INTERVAL HZ) ?p hwmon_fan 0
        = Some (0, Some ((256 * uint (data ! 110) + uint (data ! 111)) div 10))"
    by (simp add: stored_value_def)
  from ev v rd show ?thesis by blast
qed

theorem flow_speed_truncates_witness:
  "161 \<le> length ((replicate 161 0)[111 := 125 :: u8]) \<and> quadro_data_wf kzalloc_quadro_data \<and>
   (\<exists>priv'. quadro_raw_event 1000 QUADRO_STATUS_REPORT_ID ((replicate 161 0)[111 := 125])
              kzalloc_quadro_data = Some (0, priv') \<and>
      uint (speed_input priv' ! 0) = 12 \<and>
      quadro_read 250 (1000 + QUADRO_STATUS_UPDATE_INTERVAL 250) priv' hwmon_fan 0
        = Some (0, Some 12))"
proof -
  have h: "161 \<le> length ((replicate 161 0)[111 := 125 :: u8])"
    "quadro_data_wf kzalloc_quadro_data"
    by (simp_all add: kzalloc_wf)
  from h flow_speed_truncates [OF h, of 1000 250] show ?thesis by simp
qed

text \<open>
  Claim C10: after a decode the temperatures are non-negative multiples of 10 up to
  655350, the fan powers multiples of 10000 up to 655350000, and the voltages multiples
  of 10.

  The temperatures and the powers are so (\<open>decoded_ranges\<close>). The voltages are cut to
  16 bits after the multiplication: a report whose voltage field of fan 1 at offset
  114 holds 6554 (the bytes 25 and 154) leaves the stored voltage 4, which 10 does not
  divide.
\<close>

theorem fan_voltage_not_multiple_of_10:
  "quadro_raw_event 0 QUADRO_STATUS_REPORT_ID
     ((replicate 161 0)[114 := 25, 115 := 154]) kzalloc_quadro_data
   = Some (0, kzalloc_quadro_data\<lparr>voltage_input := [0, 4, 0, 0, 0]\<rparr>)
   \<and> \<not> 10 dvd uint (4 :: u16)"
proof -
  have "quadro_raw_event 0 QUADRO_STATUS_REPORT_ID
          ((replicate 161 0)[114 := 25, 115 := 154]) kzalloc_quadro_data
        = Some (0, decoded 0 ((replicate 161 0)[114 := 25, 115 := 154]) kzalloc_quadro_data)"
    by (rule quadro_raw_event_decoded) (simp_all add: kzalloc_wf)
  then show ?thesis
    by (simp add: decoded_def be16_def be32_def int_of_u16_def kzalloc_quadro_data_def)
qed

end
